theory Spec2Isabelle
  imports Complex_Main "HOL-Library.Word"
begin

unbundle bit_operations_syntax

section \<open>Exceptions and outcomes\<close>

text \<open>
  The exceptions a service function, the transport or the standard library raise are
  instances of Python's \<^verbatim>\<open>Exception\<close>. An exception is its class and the text
  \<^verbatim>\<open>str(e)\<close>. The classes are the ones the handlers of the source tell apart,
  with the subclass relations of \<^verbatim>\<open>requests\<close> and the standard library:
  \<^verbatim>\<open>ConnectTimeout\<close> is both a \<^verbatim>\<open>ConnectionError\<close> and a \<^verbatim>\<open>Timeout\<close>,
  \<^verbatim>\<open>JSONDecodeError\<close> is both a \<^verbatim>\<open>RequestException\<close> and a \<^verbatim>\<open>ValueError\<close>,
  \<^verbatim>\<open>binascii.Error\<close> is a \<^verbatim>\<open>ValueError\<close>.
\<close>

datatype exn_class =
    RequestException | Timeout | ConnectTimeout | ConnectionError | JSONDecodeError
  | ValueError | BinasciiError | TypeError | KeyError | IndexError
  | AttributeError | ZeroDivisionError | UnidentifiedImageError | OtherException

datatype exn = Exception (exn_class: exn_class) (message: string)

type_synonym 'a outcome = "exn + 'a"

fun is_Timeout :: "exn_class \<Rightarrow> bool" where
  "is_Timeout Timeout = True"
| "is_Timeout ConnectTimeout = True"
| "is_Timeout _ = False"

fun is_ConnectionError :: "exn_class \<Rightarrow> bool" where
  "is_ConnectionError ConnectionError = True"
| "is_ConnectionError ConnectTimeout = True"
| "is_ConnectionError _ = False"

fun is_RequestException :: "exn_class \<Rightarrow> bool" where
  "is_RequestException RequestException = True"
| "is_RequestException Timeout = True"
| "is_RequestException ConnectTimeout = True"
| "is_RequestException ConnectionError = True"
| "is_RequestException JSONDecodeError = True"
| "is_RequestException _ = False"

fun is_ValueError :: "exn_class \<Rightarrow> bool" where
  "is_ValueError ValueError = True"
| "is_ValueError JSONDecodeError = True"
| "is_ValueError BinasciiError = True"
| "is_ValueError _ = False"

section \<open>The wall clock\<close>

text \<open>
  \<^verbatim>\<open>time.time()\<close> and \<^verbatim>\<open>datetime.now()\<close> read the wall clock. The clock is
  a parameter: \<open>clock k\<close> is what the \<open>k\<close>-th reading returns, and the state
  counts the readings taken so far (\<open>ticks\<close>). \<^verbatim>\<open>psutil.virtual_memory().used\<close>
  is read the same way from \<open>memory\<close>.
\<close>

type_synonym clock = "nat \<Rightarrow> real"

section \<open>Session state and instrumentation of app\_cleaned.py\<close>

text \<open>
  \<^verbatim>\<open>st.session_state.performance_metrics\<close> and
  \<^verbatim>\<open>st.session_state.generation_history\<close>. Python's integers are unbounded,
  a duration is the difference of two clock readings, and a missing duration or error
  is \<^verbatim>\<open>None\<close>. \<open>displayed_errors\<close> collects the messages shown by
  \<^verbatim>\<open>st.error\<close>.
\<close>

record performance_metrics =
  total_generations :: int
  successful_generations :: int
  average_generation_time :: real
  error_count :: int

record history_entry =
  timestamp :: real
  operation :: string
  success :: bool
  duration :: "real option"
  error :: "string option"

record session_state =
  performance_metrics :: performance_metrics
  generation_history :: "history_entry list"
  displayed_errors :: "string list"
  ticks :: nat

text \<open>The defaults of \<^verbatim>\<open>initialize_session_state\<close>.\<close>

definition initialize_session_state :: session_state where
  "initialize_session_state =
     \<lparr> performance_metrics =
         \<lparr> total_generations = 0, successful_generations = 0,
           average_generation_time = 0, error_count = 0 \<rparr>,
       generation_history = [], displayed_errors = [], ticks = 0 \<rparr>"

text \<open>\<^verbatim>\<open>xs[-100:]\<close>: the last hundred elements, all of them when there are fewer.\<close>

definition last_100 :: "'a list \<Rightarrow> 'a list" where
  "last_100 xs = drop (length xs - 100) xs"

text \<open>
  The first half of \<^verbatim>\<open>log_generation_attempt\<close>: the counters.
  \<^verbatim>\<open>if duration:\<close> is false for \<^verbatim>\<open>None\<close> and for \<^verbatim>\<open>0.0\<close>. The
  dictionary is updated in place, so when the division raises (a counter of successes
  that was \<open>-1\<close>) the two increments before it stay.
\<close>

definition update_metrics ::
  "bool \<Rightarrow> real option \<Rightarrow> performance_metrics \<Rightarrow> unit outcome \<times> performance_metrics" where
  "update_metrics succ dur m0 =
     (let m1 = m0\<lparr>total_generations := total_generations m0 + 1\<rparr>
      in if succ
         then let m2 = m1\<lparr>successful_generations := successful_generations m1 + 1\<rparr>
              in (case dur of
                    None \<Rightarrow> (Inr (), m2)
                  | Some d \<Rightarrow>
                      if d = 0 then (Inr (), m2)
                      else let current_avg = average_generation_time m2;
                               total_successful = successful_generations m2
                           in if total_successful = 0
                              then (Inl (Exception ZeroDivisionError ''float division by zero''), m2)
                              else (Inr (), m2\<lparr>average_generation_time :=
                                      ((current_avg * (of_int total_successful - 1)) + d)
                                         / of_int total_successful\<rparr>))
         else (Inr (), m1\<lparr>error_count := error_count m1 + 1\<rparr>))"

text \<open>
  \<^verbatim>\<open>log_generation_attempt\<close>: the timestamp is read first, then the counters are
  updated, then the entry is appended and the history cut to its last hundred entries.
\<close>

definition log_generation_attempt ::
  "clock \<Rightarrow> string \<Rightarrow> bool \<Rightarrow> real option \<Rightarrow> string option \<Rightarrow> session_state
     \<Rightarrow> unit outcome \<times> session_state" where
  "log_generation_attempt clock operation_type succ dur err st =
     (let now = clock (ticks st);
          st1 = st\<lparr>ticks := ticks st + 1\<rparr>;
          (r, m) = update_metrics succ dur (performance_metrics st1);
          st2 = st1\<lparr>performance_metrics := m\<rparr>
      in case r of
           Inl e \<Rightarrow> (Inl e, st2)
         | Inr _ \<Rightarrow>
             let entry = \<lparr> timestamp = now, operation = operation_type,
                           success = succ, duration = dur, error = err \<rparr>;
                 h = generation_history st2 @ [entry]
             in (Inr (), st2\<lparr>generation_history :=
                               (if length h > 100 then last_100 h else h)\<rparr>))"

text \<open>
  The handlers of \<^verbatim>\<open>safe_api_call\<close>, in the order of the source: the first
  handler whose class the exception is an instance of gives the prefix of the logged
  message and of the displayed one.
\<close>

definition error_prefix :: "exn_class \<Rightarrow> string" where
  "error_prefix c =
     (if is_RequestException c then ''Network error''
      else if is_ValueError c then ''Invalid input''
      else ''Unexpected error'')"

definition displayed_prefix :: "exn_class \<Rightarrow> string" where
  "displayed_prefix c =
     (if is_RequestException c then ''Network error in ''
      else if is_ValueError c then ''Invalid input for ''
      else ''Unexpected error in '')"

definition handle_exception ::
  "clock \<Rightarrow> real \<Rightarrow> string \<Rightarrow> exn \<Rightarrow> session_state \<Rightarrow> 'a option outcome \<times> session_state" where
  "handle_exception clock start_time operation_name e st =
     (let dur = clock (ticks st) - start_time;
          st1 = st\<lparr>ticks := ticks st + 1\<rparr>;
          error_msg = error_prefix (exn_class e) @ '': '' @ message e;
          (r, st2) = log_generation_attempt clock operation_name False (Some dur) (Some error_msg) st1
      in case r of
           Inl e' \<Rightarrow> (Inl e', st2)
         | Inr _ \<Rightarrow>
             (Inr None,
              st2\<lparr>displayed_errors := displayed_errors st2 @
                     [displayed_prefix (exn_class e) @ operation_name @ '': '' @ message e]\<rparr>))"

text \<open>
  \<^verbatim>\<open>safe_api_call\<close>. \<open>api_result\<close> is what the call
  \<^verbatim>\<open>api_function(*args, **kwargs)\<close> does: it returns a value (which may be
  \<^verbatim>\<open>None\<close>) or raises. The logging of a success is inside the \<^verbatim>\<open>try\<close>, so an
  exception of \<^verbatim>\<open>log_generation_attempt\<close> there is handled like one of the call.
\<close>

definition safe_api_call ::
  "clock \<Rightarrow> 'a option outcome \<Rightarrow> string \<Rightarrow> session_state \<Rightarrow> 'a option outcome \<times> session_state" where
  "safe_api_call clock api_result operation_name st =
     (let start_time = clock (ticks st);
          st1 = st\<lparr>ticks := ticks st + 1\<rparr>
      in case api_result of
           Inl e \<Rightarrow> handle_exception clock start_time operation_name e st1
         | Inr result \<Rightarrow>
             let dur = clock (ticks st1) - start_time;
                 st2 = st1\<lparr>ticks := ticks st1 + 1\<rparr>;
                 (r, st3) = log_generation_attempt clock operation_name True (Some dur) None st2
             in (case r of
                   Inl e \<Rightarrow> handle_exception clock start_time operation_name e st3
                 | Inr _ \<Rightarrow> (Inr result, st3)))"

text \<open>A sequence of logged attempts; an exception ends it, as it would the caller.\<close>

record attempt =
  attempt_operation :: string
  attempt_success :: bool
  attempt_duration :: "real option"
  attempt_error :: "string option"

fun log_attempts :: "clock \<Rightarrow> attempt list \<Rightarrow> session_state \<Rightarrow> unit outcome \<times> session_state" where
  "log_attempts clock [] st = (Inr (), st)"
| "log_attempts clock (a # as) st =
     (case log_generation_attempt clock (attempt_operation a) (attempt_success a)
             (attempt_duration a) (attempt_error a) st of
        (Inl e, st') \<Rightarrow> (Inl e, st')
      | (Inr _, st') \<Rightarrow> log_attempts clock as st')"

text \<open>
  The relation between the counters that \<^verbatim>\<open>display_performance_dashboard\<close> reads:
  every attempt is counted once, as a success or as an error.
\<close>

definition counters_consistent :: "performance_metrics \<Rightarrow> bool" where
  "counters_consistent m \<longleftrightarrow>
     0 \<le> successful_generations m \<and>
     total_generations m = successful_generations m + error_count m"

section \<open>The performance monitor and the API manager of app\_improved.py\<close>

text \<open>
  \<^verbatim>\<open>st.session_state.performance_data\<close> and \<^verbatim>\<open>st.session_state.api_calls\<close>
  of \<^verbatim>\<open>utils/performance_monitor.py\<close>.
\<close>

record performance_entry =
  perf_operation :: string
  perf_duration :: real
  memory_change :: real
  perf_timestamp :: real

record api_call_entry =
  service :: string
  call_duration :: real
  status :: string
  call_error :: "string option"
  call_timestamp :: real

record monitor_state =
  performance_data :: "performance_entry list"
  api_calls :: "api_call_entry list"
  clock_ticks :: nat
  memory_reads :: nat

text \<open>\<^verbatim>\<open>PerformanceMonitor.__init__\<close> on a fresh session.\<close>

definition PerformanceMonitor_init :: monitor_state where
  "PerformanceMonitor_init =
     \<lparr> performance_data = [], api_calls = [], clock_ticks = 0, memory_reads = 0 \<rparr>"

text \<open>\<^verbatim>\<open>PerformanceMonitor.log_api_call\<close>: one append, nothing else.\<close>

definition log_api_call ::
  "clock \<Rightarrow> string \<Rightarrow> real \<Rightarrow> string \<Rightarrow> string option \<Rightarrow> monitor_state \<Rightarrow> monitor_state" where
  "log_api_call clock svc dur stat err st =
     st\<lparr> api_calls := api_calls st @
            [\<lparr> service = svc, call_duration = dur, status = stat, call_error = err,
               call_timestamp = clock (clock_ticks st) \<rparr>],
         clock_ticks := clock_ticks st + 1 \<rparr>"

text \<open>
  \<^verbatim>\<open>PerformanceMonitor.monitor_operation\<close>, a context manager: the part before
  \<^verbatim>\<open>yield\<close> reads the clock and the memory, the \<^verbatim>\<open>finally\<close> part reads them
  again and appends to \<^verbatim>\<open>performance_data\<close>, whether the body raised or not.
\<close>

definition monitor_enter :: "clock \<Rightarrow> clock \<Rightarrow> monitor_state \<Rightarrow> (real \<times> real) \<times> monitor_state" where
  "monitor_enter clock memory st =
     ((clock (clock_ticks st), memory (memory_reads st) / 1024 / 1024),
      st\<lparr>clock_ticks := clock_ticks st + 1, memory_reads := memory_reads st + 1\<rparr>)"

definition monitor_exit ::
  "clock \<Rightarrow> clock \<Rightarrow> string \<Rightarrow> real \<times> real \<Rightarrow> monitor_state \<Rightarrow> monitor_state" where
  "monitor_exit clock memory operation_name start st =
     (let end_time = clock (clock_ticks st);
          end_memory = memory (memory_reads st) / 1024 / 1024;
          now = clock (clock_ticks st + 1)
      in st\<lparr> performance_data := performance_data st @
                [\<lparr> perf_operation = operation_name, perf_duration = end_time - fst start,
                   memory_change = end_memory - snd start, perf_timestamp = now \<rparr>],
             clock_ticks := clock_ticks st + 2, memory_reads := memory_reads st + 1 \<rparr>)"

text \<open>
  \<^verbatim>\<open>APIManager.make_api_call\<close>. \<open>api_result\<close> is what the call of
  \<^verbatim>\<open>api_function\<close> does. The result is the pair \<^verbatim>\<open>(result, None)\<close> or
  \<^verbatim>\<open>(None, error_msg)\<close>.
\<close>

definition make_api_call ::
  "clock \<Rightarrow> clock \<Rightarrow> string \<Rightarrow> 'a option outcome \<Rightarrow> monitor_state
     \<Rightarrow> ('a option \<times> string option) outcome \<times> monitor_state" where
  "make_api_call clock memory service_name api_result st =
     (let start_time = clock (clock_ticks st);
          st1 = st\<lparr>clock_ticks := clock_ticks st + 1\<rparr>;
          (start, st2) = monitor_enter clock memory st1;
          st3 = monitor_exit clock memory (''API_'' @ service_name) start st2
      in case api_result of
           Inr result \<Rightarrow>
             let dur = clock (clock_ticks st3) - start_time;
                 st4 = st3\<lparr>clock_ticks := clock_ticks st3 + 1\<rparr>
             in (Inr (result, None), log_api_call clock service_name dur ''success'' None st4)
         | Inl e \<Rightarrow>
             let dur = clock (clock_ticks st3) - start_time;
                 st4 = st3\<lparr>clock_ticks := clock_ticks st3 + 1\<rparr>;
                 error_msg = message e
             in (Inr (None, Some error_msg),
                 log_api_call clock service_name dur ''error'' (Some error_msg) st4))"

section \<open>Strings\<close>

text \<open>
  A Python \<^verbatim>\<open>str\<close> is modelled by the list of its characters, each a code point
  below 256; the functions below are the string methods the source calls, on these
  characters.
\<close>

text \<open>
  \<^verbatim>\<open>str.upper\<close>, on the letters \<^verbatim>\<open>a\<close> to \<^verbatim>\<open>z\<close>. The source compares the
  result with \<^verbatim>\<open>"POST"\<close> and \<^verbatim>\<open>"GET"\<close> only, and no string that holds another
  character below 256 has one of these two words as its upper case.
\<close>

definition upper_char :: "char \<Rightarrow> char" where
  "upper_char c =
     (let n = (of_char c :: nat) in if 97 \<le> n \<and> n \<le> 122 then char_of (n - 32) else c)"

definition upper :: "string \<Rightarrow> string" where
  "upper s = map upper_char s"



text \<open>\<^verbatim>\<open>sep.join(xs)\<close>.\<close>

fun join :: "string \<Rightarrow> string list \<Rightarrow> string" where
  "join sep [] = []"
| "join sep [x] = x"
| "join sep (x # y # ys) = x @ sep @ join sep (y # ys)"

text \<open>The decimal text of an integer, as \<^verbatim>\<open>str\<close> and an f-string print it.\<close>

definition digit_char :: "nat \<Rightarrow> char" where
  "digit_char d = char_of (48 + d)"

function str_nat :: "nat \<Rightarrow> string" where
  "str_nat n = (if n < 10 then [digit_char n] else str_nat (n div 10) @ [digit_char (n mod 10)])"
  by pat_completeness auto
termination
  by (relation "measure id") auto

declare str_nat.simps [simp del]

definition str_int :: "int \<Rightarrow> string" where
  "str_int i = (if i < 0 then CHR ''-'' # str_nat (nat (- i)) else str_nat (nat i))"

text \<open>\<^verbatim>\<open>a in b\<close> on strings: \<open>a\<close> occurs in \<open>b\<close> as a contiguous part.\<close>

fun starts_with :: "string \<Rightarrow> string \<Rightarrow> bool" where
  "starts_with [] s = True"
| "starts_with (p # ps) [] = False"
| "starts_with (p # ps) (c # cs) = (p = c \<and> starts_with ps cs)"

fun occurs_in :: "string \<Rightarrow> string \<Rightarrow> bool" where
  "occurs_in p [] = (p = [])"
| "occurs_in p (c # cs) = (starts_with p (c # cs) \<or> occurs_in p cs)"

section \<open>Validation of an uploaded file\<close>

text \<open>
  An uploaded file object, as far as the validators look at it: its attributes
  \<^verbatim>\<open>size\<close> and \<^verbatim>\<open>type\<close>, each of which an object may lack
  (\<^verbatim>\<open>hasattr\<close>). The argument of a validator is such an object or \<^verbatim>\<open>None\<close>.
\<close>

record uploaded_file =
  file_size :: "int option"
  file_type :: "string option"

definition valid_types :: "string list" where
  "valid_types = [''image/jpeg'', ''image/png'', ''image/webp'']"

text \<open>\<^verbatim>\<open>BaseAPIService.validate_image_file\<close>.\<close>

definition validate_image_file :: "uploaded_file option \<Rightarrow> bool outcome" where
  "validate_image_file image_file =
     (case image_file of
        None \<Rightarrow> Inr False
      | Some f \<Rightarrow>
          if (case file_size f of None \<Rightarrow> False | Some n \<Rightarrow> n > 10 * 1024 * 1024)
          then Inl (Exception ValueError ''Image file too large (max 10MB)'')
          else if (case file_type f of None \<Rightarrow> False | Some t \<Rightarrow> t \<notin> set valid_types)
          then Inl (Exception ValueError
                 (''Invalid file type. Supported: '' @ join '', '' valid_types))
          else Inr True)"

text \<open>
  \<^verbatim>\<open>validate_image\<close> of app\_improved.py reads the attributes without asking for
  them, so a missing one raises \<^verbatim>\<open>AttributeError\<close>.
\<close>

definition validate_image :: "uploaded_file option \<Rightarrow> (bool \<times> string) outcome" where
  "validate_image image_file =
     (case image_file of
        None \<Rightarrow> Inr (False, ''No image file provided'')
      | Some f \<Rightarrow>
          (case file_size f of
             None \<Rightarrow> Inl (Exception AttributeError ''size'')
           | Some n \<Rightarrow>
               if n > 10 * 1024 * 1024 then Inr (False, ''Image file too large (max 10MB)'')
               else (case file_type f of
                       None \<Rightarrow> Inl (Exception AttributeError ''type'')
                     | Some t \<Rightarrow>
                         if t \<notin> set valid_types
                         then Inr (False, ''Invalid file type. Supported: '' @ join '', '' valid_types)
                         else Inr (True, ''Valid image''))))"

section \<open>The transport client of services/api\_base.py\<close>

text \<open>
  A parsed JSON value, and Python's \<^verbatim>\<open>in\<close> and subscription on it. A dictionary
  is the list of its items.
\<close>

datatype json =
    JNull | JBool bool | JInt int | JFloat real | JStr string
  | JList "json list" | JDict "(string \<times> json) list"

fun type_name :: "json \<Rightarrow> string" where
  "type_name JNull = ''NoneType''"
| "type_name (JBool b) = ''bool''"
| "type_name (JInt i) = ''int''"
| "type_name (JFloat x) = ''float''"
| "type_name (JStr s) = ''str''"
| "type_name (JList xs) = ''list''"
| "type_name (JDict kvs) = ''dict''"

text \<open>\<^verbatim>\<open>key in v\<close> for a string \<open>key\<close>.\<close>

fun py_contains :: "string \<Rightarrow> json \<Rightarrow> bool outcome" where
  "py_contains key (JDict kvs) = Inr (key \<in> set (map fst kvs))"
| "py_contains key (JList xs) = Inr (JStr key \<in> set xs)"
| "py_contains key (JStr s) = Inr (occurs_in key s)"
| "py_contains key v =
     Inl (Exception TypeError (''argument of type '' @ [CHR 0x27] @ type_name v @ [CHR 0x27]
            @ '' is not iterable''))"

text \<open>\<^verbatim>\<open>v[key]\<close> for a string \<open>key\<close>.\<close>

fun py_getitem :: "json \<Rightarrow> string \<Rightarrow> json outcome" where
  "py_getitem (JDict kvs) key =
     (case map_of kvs key of
        None \<Rightarrow> Inl (Exception KeyError ([CHR 0x27] @ key @ [CHR 0x27]))
      | Some v \<Rightarrow> Inr v)"
| "py_getitem (JList xs) key =
     Inl (Exception TypeError ''list indices must be integers or slices, not str'')"
| "py_getitem (JStr s) key =
     Inl (Exception TypeError (''string indices must be integers, not ''
            @ [CHR 0x27] @ ''str'' @ [CHR 0x27]))"
| "py_getitem v key =
     Inl (Exception TypeError ([CHR 0x27] @ type_name v @ [CHR 0x27]
            @ '' object is not subscriptable''))"

text \<open>\<^verbatim>\<open>v[0]\<close>. The keys of a parsed JSON object are strings, never \<open>0\<close>.\<close>

fun py_first :: "json \<Rightarrow> json outcome" where
  "py_first (JList []) = Inl (Exception IndexError ''list index out of range'')"
| "py_first (JList (x # xs)) = Inr x"
| "py_first (JStr []) = Inl (Exception IndexError ''string index out of range'')"
| "py_first (JStr (c # cs)) = Inr (JStr [c])"
| "py_first (JDict kvs) = Inl (Exception KeyError ''0'')"
| "py_first v =
     Inl (Exception TypeError ([CHR 0x27] @ type_name v @ [CHR 0x27]
            @ '' object is not subscriptable''))"

text \<open>
  An HTTP request as \<^verbatim>\<open>requests.post\<close> and \<^verbatim>\<open>requests.get\<close> receive it, and
  the response as far as the client reads it: \<^verbatim>\<open>status_code\<close>, \<^verbatim>\<open>text\<close> and
  what \<^verbatim>\<open>json()\<close> does (it raises when the body is not JSON). The network is a
  parameter: it answers a request with a response or raises.
\<close>

type_synonym data = "(string \<times> json) list"
type_synonym files = "(string \<times> string) list"

record request =
  verb :: string
  url :: string
  headers :: "(string \<times> string) list"
  json_arg :: "data option"
  data_arg :: "data option"
  files_arg :: "files option"
  params_arg :: "data option"
  timeout_arg :: int

record response =
  status_code :: int
  response_text :: string
  response_json :: "json outcome"

type_synonym transport = "request \<Rightarrow> response outcome"

record service =
  api_key :: string
  base_url :: string

text \<open>
  \<^verbatim>\<open>BaseAPIService.__init__\<close>; the argument is what
  \<^verbatim>\<open>os.getenv('BRIA_API_KEY')\<close> returns.
\<close>

definition BaseAPIService_init :: "string option \<Rightarrow> service outcome" where
  "BaseAPIService_init env_key =
     (case env_key of
        None \<Rightarrow> Inl (Exception ValueError ''BRIA_API_KEY not found in environment variables'')
      | Some k \<Rightarrow>
          if k = [] then Inl (Exception ValueError ''BRIA_API_KEY not found in environment variables'')
          else Inr \<lparr> api_key = k, base_url = ''https://engine.prod.bria-api.com'' \<rparr>)"

definition get_headers :: "service \<Rightarrow> (string \<times> string) list" where
  "get_headers self =
     [(''Authorization'', ''Bearer '' @ api_key self), (''Content-Type'', ''application/json'')]"

text \<open>\<^verbatim>\<open>if files\<close>: \<^verbatim>\<open>None\<close> and the empty dictionary are false.\<close>

fun truthy :: "'a list option \<Rightarrow> bool" where
  "truthy None = False"
| "truthy (Some xs) = (xs \<noteq> [])"

text \<open>
  \<^verbatim>\<open>BaseAPIService.make_request\<close>, in the three steps of its \<^verbatim>\<open>try\<close> block
  and its handlers. The result comes with the list of the requests that were sent.
  The lines written to the \<^verbatim>\<open>logging\<close> module are not part of the model.
\<close>

definition send :: "transport \<Rightarrow> service \<Rightarrow> string \<Rightarrow> string \<Rightarrow> data option \<Rightarrow> files option
    \<Rightarrow> int \<Rightarrow> response outcome \<times> request list" where
  "send http self endpoint method data files timeout =
     (let url = base_url self @ ''/'' @ endpoint;
          headers = (if \<not> truthy files then get_headers self
                     else [(''Authorization'', ''Bearer '' @ api_key self)])
      in if upper method = ''POST''
         then if truthy files
              then let rq = \<lparr> verb = ''POST'', url = url, headers = headers, json_arg = None,
                              data_arg = data, files_arg = files, params_arg = None,
                              timeout_arg = timeout \<rparr>
                   in (http rq, [rq])
              else let rq = \<lparr> verb = ''POST'', url = url, headers = headers, json_arg = data,
                              data_arg = None, files_arg = None, params_arg = None,
                              timeout_arg = timeout \<rparr>
                   in (http rq, [rq])
         else if upper method = ''GET''
         then let rq = \<lparr> verb = ''GET'', url = url, headers = headers, json_arg = None,
                         data_arg = None, files_arg = None, params_arg = data,
                         timeout_arg = timeout \<rparr>
              in (http rq, [rq])
         else (Inl (Exception ValueError (''Unsupported HTTP method: '' @ method)), []))"

definition handle_response :: "response \<Rightarrow> json outcome" where
  "handle_response r =
     (if status_code r = 200 then response_json r
      else Inl (Exception RequestException
             (''API Error: '' @ str_int (status_code r) @ '' - '' @ response_text r)))"

definition reraise :: "string \<Rightarrow> int \<Rightarrow> exn \<Rightarrow> exn" where
  "reraise endpoint timeout e =
     (if is_Timeout (exn_class e)
      then Exception RequestException
             (''Request timeout after '' @ str_int timeout @ ''s for '' @ endpoint)
      else if is_ConnectionError (exn_class e)
      then Exception RequestException (''Connection error for '' @ endpoint)
      else Exception RequestException
             (''Unexpected error for '' @ endpoint @ '': '' @ message e))"

definition make_request :: "transport \<Rightarrow> service \<Rightarrow> string \<Rightarrow> string \<Rightarrow> data option
    \<Rightarrow> files option \<Rightarrow> int \<Rightarrow> json outcome \<times> request list" where
  "make_request http self endpoint method data files timeout =
     (let (r, sent) = send http self endpoint method data files timeout;
          body = (case r of Inl e \<Rightarrow> Inl e | Inr response \<Rightarrow> handle_response response)
      in (case body of
            Inl e \<Rightarrow> Inl (reraise endpoint timeout e)
          | Inr j \<Rightarrow> Inr j,
          sent))"

section \<open>Base64 of the standard library\<close>

text \<open>
  \<^verbatim>\<open>base64.b64decode(s)\<close> on a \<^verbatim>\<open>str\<close>: the string must be ASCII, and is then
  decoded by \<^verbatim>\<open>binascii.a2b_base64\<close> in its default, lenient mode. That function
  walks over the characters with three variables: the position in the current group of
  four (\<open>quad_pos\<close>), the bits left over from the last character (\<open>leftchar\<close>) and
  the count of padding characters seen in a row (\<open>pads\<close>). Characters outside the
  alphabet are skipped, a padding character that completes a group ends the decoding.
\<close>

type_synonym byte = "8 word"

definition b64_alphabet :: string where
  "b64_alphabet = ''ABCDEFGHIJKLMNOPQRSTUVWXYZabcdefghijklmnopqrstuvwxyz0123456789+/''"

fun index_of :: "'a \<Rightarrow> 'a list \<Rightarrow> nat option" where
  "index_of x [] = None"
| "index_of x (y # ys) = (if x = y then Some 0 else map_option Suc (index_of x ys))"

definition b64_value :: "char \<Rightarrow> byte option" where
  "b64_value c = map_option of_nat (index_of c b64_alphabet)"

fun a2b_loop :: "string \<Rightarrow> nat \<Rightarrow> byte \<Rightarrow> nat \<Rightarrow> byte list \<Rightarrow> byte list outcome" where
  "a2b_loop [] quad_pos leftchar pads bin_data =
     (if quad_pos \<noteq> 0
      then if quad_pos = 1
           then Inl (Exception BinasciiError
                  (''Invalid base64-encoded string: number of data characters ('' @
                   str_nat (length bin_data div 3 * 4 + 1) @
                   '') cannot be 1 more than a multiple of 4''))
           else Inl (Exception BinasciiError ''Incorrect padding'')
      else Inr bin_data)"
| "a2b_loop (c # cs) quad_pos leftchar pads bin_data =
     (if c = CHR ''=''
      then if quad_pos \<ge> 2
           then if quad_pos + (pads + 1) \<ge> 4 then Inr bin_data
                else a2b_loop cs quad_pos leftchar (pads + 1) bin_data
           else a2b_loop cs quad_pos leftchar pads bin_data
      else case b64_value c of
             None \<Rightarrow> a2b_loop cs quad_pos leftchar pads bin_data
           | Some this_ch \<Rightarrow>
               if quad_pos = 0 then a2b_loop cs 1 this_ch 0 bin_data
               else if quad_pos = 1
               then a2b_loop cs 2 (this_ch AND 0x0f) 0
                      (bin_data @ [push_bit 2 leftchar OR drop_bit 4 this_ch])
               else if quad_pos = 2
               then a2b_loop cs 3 (this_ch AND 0x03) 0
                      (bin_data @ [push_bit 4 leftchar OR drop_bit 2 this_ch])
               else a2b_loop cs 0 0 0 (bin_data @ [push_bit 6 leftchar OR this_ch]))"

definition a2b_base64 :: "string \<Rightarrow> byte list outcome" where
  "a2b_base64 s = a2b_loop s 0 0 0 []"

definition b64decode :: "string \<Rightarrow> byte list outcome" where
  "b64decode s =
     (if list_all (\<lambda>c. (of_char c :: nat) < 128) s then a2b_base64 s
      else Inl (Exception ValueError ''string argument should contain only ASCII characters''))"

text \<open>
  The encoding that the decoder is the inverse of, \<^verbatim>\<open>base64.b64encode\<close> (RFC 4648):
  three bytes give four characters of the alphabet, a rest of one or two bytes is
  padded with \<^verbatim>\<open>=\<close>.
\<close>

definition b64_char :: "byte \<Rightarrow> char" where
  "b64_char v = b64_alphabet ! unat v"

fun b64encode :: "byte list \<Rightarrow> string" where
  "b64encode [] = []"
| "b64encode [a] =
     [b64_char (drop_bit 2 a), b64_char (push_bit 4 (a AND 0x03)), CHR ''='', CHR ''='']"
| "b64encode [a, b] =
     [b64_char (drop_bit 2 a), b64_char (push_bit 4 (a AND 0x03) OR drop_bit 4 b),
      b64_char (push_bit 2 (b AND 0x0f)), CHR ''='']"
| "b64encode (a # b # c # bs) =
     [b64_char (drop_bit 2 a), b64_char (push_bit 4 (a AND 0x03) OR drop_bit 4 b),
      b64_char (push_bit 2 (b AND 0x0f) OR drop_bit 6 c), b64_char (c AND 0x3f)]
     @ b64encode bs"

section \<open>HD image generation of services/hd\_image\_generation\_improved.py\<close>

text \<open>
  \<^verbatim>\<open>Image.open(io.BytesIO(image_bytes))\<close>: the image object keeps the bytes it was
  opened from; the call raises when Pillow recognises no image format in them. Which
  byte strings Pillow recognises is a parameter, \<open>identify\<close>.
\<close>

datatype image = Image (image_bytes: "byte list")

definition Image_open :: "(byte list \<Rightarrow> bool) \<Rightarrow> byte list \<Rightarrow> image outcome" where
  "Image_open identify bs =
     (if identify bs then Inr (Image bs)
      else Inl (Exception UnidentifiedImageError ''cannot identify image file''))"

text \<open>
  The second half of \<^verbatim>\<open>generate_hd_image\<close>, from the comment
  \<^verbatim>\<open># Process response\<close> on: the normalisation of the parsed response body.
  Every subscription is evaluated as the source writes it, left to right.
\<close>

definition then_do :: "'a outcome \<Rightarrow> ('a \<Rightarrow> 'b outcome) \<Rightarrow> 'b outcome" where
  "then_do r f = (case r of Inl e \<Rightarrow> Inl e | Inr v \<Rightarrow> f v)"

definition decode_image :: "(byte list \<Rightarrow> bool) \<Rightarrow> json \<Rightarrow> image outcome" where
  "decode_image identify image_data =
     (case image_data of
        JStr s \<Rightarrow> then_do (b64decode s) (Image_open identify)
      | _ \<Rightarrow> Inl (Exception ValueError ''Unexpected image format in response''))"

definition process_response :: "(byte list \<Rightarrow> bool) \<Rightarrow> json \<Rightarrow> image outcome" where
  "process_response identify response_data =
     then_do (py_contains ''result'' response_data) (\<lambda>has_result.
       if \<not> has_result then Inl (Exception ValueError ''Invalid response format from API'')
       else
         then_do (py_getitem response_data ''result'') (\<lambda>result.
         then_do (py_contains ''images'' result) (\<lambda>has_images.
           if \<not> has_images then Inl (Exception ValueError ''Invalid response format from API'')
           else
             then_do (py_getitem response_data ''result'') (\<lambda>result.
             then_do (py_getitem result ''images'') (\<lambda>images.
             then_do (py_first images) (decode_image identify))))))"


section \<open>The usage counters and the generation history\<close>

lemma update_metrics_counters:
  "total_generations (snd (update_metrics succ dur m)) = total_generations m + 1"
  "successful_generations (snd (update_metrics succ dur m)) =
     successful_generations m + (if succ then 1 else 0)"
  "error_count (snd (update_metrics succ dur m)) = error_count m + (if succ then 0 else 1)"
  by (simp_all add: update_metrics_def Let_def split: option.splits)

lemma update_metrics_failure_returns: "fst (update_metrics False dur m) = Inr ()"
  by (simp add: update_metrics_def Let_def)

lemma update_metrics_returns:
  "0 \<le> successful_generations m \<Longrightarrow> fst (update_metrics succ dur m) = Inr ()"
  by (simp add: update_metrics_def Let_def split: option.splits)

lemma log_generation_attempt_metrics:
  "performance_metrics (snd (log_generation_attempt clock op succ dur err st)) =
     snd (update_metrics succ dur (performance_metrics st))"
  by (simp add: log_generation_attempt_def Let_def split: prod.splits sum.splits)

lemma log_generation_attempt_fst:
  "fst (log_generation_attempt clock op succ dur err st) =
     fst (update_metrics succ dur (performance_metrics st))"
  by (simp add: log_generation_attempt_def Let_def split: prod.splits sum.splits)

lemma log_attempts_consistent:
  "counters_consistent (performance_metrics st) \<Longrightarrow>
   fst (log_attempts clock as st) = Inr () \<and>
   counters_consistent (performance_metrics (snd (log_attempts clock as st)))"
proof (induction as arbitrary: st)
  case Nil
  then show ?case by simp
next
  case (Cons a as)
  let ?r = "log_generation_attempt clock (attempt_operation a) (attempt_success a)
             (attempt_duration a) (attempt_error a) st"
  from Cons.prems have ret: "fst ?r = Inr ()"
    by (simp add: log_generation_attempt_fst update_metrics_returns counters_consistent_def)
  from Cons.prems have "counters_consistent (performance_metrics (snd ?r))"
    by (simp add: log_generation_attempt_metrics update_metrics_counters counters_consistent_def)
  from Cons.IH[OF this] ret show ?case
    by (cases ?r) (simp split: sum.splits)
qed

text \<open>
  C10. Every call of \<^verbatim>\<open>log_generation_attempt\<close>, from any state, adds one to
  \<^verbatim>\<open>total_generations\<close> and one to exactly one of
  \<^verbatim>\<open>successful_generations\<close> (a success) and \<^verbatim>\<open>error_count\<close> (a failure).
  From the initial all-zero state every sequence of calls returns, and afterwards
  \<^verbatim>\<open>total_generations = successful_generations + error_count\<close>.
\<close>

theorem usage_counter_consistency:
  "(let m = performance_metrics st;
        m' = performance_metrics (snd (log_generation_attempt clock op succ dur err st))
    in total_generations m' = total_generations m + 1
     \<and> successful_generations m' = successful_generations m + (if succ then 1 else 0)
     \<and> error_count m' = error_count m + (if succ then 0 else 1))
   \<and> fst (log_attempts clock as initialize_session_state) = Inr ()
   \<and> (let m = performance_metrics (snd (log_attempts clock as initialize_session_state))
      in total_generations m = successful_generations m + error_count m)"
proof -
  have "counters_consistent (performance_metrics initialize_session_state)"
    by (simp add: counters_consistent_def initialize_session_state_def)
  from log_attempts_consistent[OF this, of clock as]
  show ?thesis
    by (simp add: Let_def log_generation_attempt_metrics update_metrics_counters
          counters_consistent_def)
qed

theorem usage_counter_consistency_witness:
  "(let m' = performance_metrics (snd (log_generation_attempt (\<lambda>k. real k)
               ''HD Image Generation'' False (Some 3) (Some ''Network error: timeout'')
               initialize_session_state))
    in total_generations m' = 1 \<and> successful_generations m' = 0 \<and> error_count m' = 1)
   \<and> (let m = performance_metrics (snd (log_attempts (\<lambda>k. real k)
               [\<lparr>attempt_operation = ''HD Image Generation'', attempt_success = True,
                 attempt_duration = Some 2, attempt_error = None\<rparr>,
                \<lparr>attempt_operation = ''Erase'', attempt_success = False,
                 attempt_duration = Some 1, attempt_error = Some ''Invalid input: x''\<rparr>]
               initialize_session_state))
      in total_generations m = successful_generations m + error_count m)"
  using usage_counter_consistency [of initialize_session_state "\<lambda>k. real k"
      "''HD Image Generation''" False "Some 3" "Some ''Network error: timeout''"
      "[\<lparr>attempt_operation = ''HD Image Generation'', attempt_success = True,
                 attempt_duration = Some 2, attempt_error = None\<rparr>,
                \<lparr>attempt_operation = ''Erase'', attempt_success = False,
                 attempt_duration = Some 1, attempt_error = Some ''Invalid input: x''\<rparr>]"]
  by (simp add: Let_def initialize_session_state_def)

lemma log_generation_attempt_history:
  "generation_history (snd (log_generation_attempt clock op succ dur err st)) =
     (case fst (log_generation_attempt clock op succ dur err st) of
        Inl e \<Rightarrow> generation_history st
      | Inr u \<Rightarrow> drop (length (generation_history st) + 1 - 100)
                 (generation_history st @ [\<lparr> timestamp = clock (ticks st), operation = op,
                    success = succ, duration = dur, error = err \<rparr>]))"
  by (simp add: log_generation_attempt_def Let_def last_100_def split: prod.splits sum.splits)

lemma log_generation_attempt_length:
  "length (generation_history st) \<le> 100 \<Longrightarrow>
   length (generation_history (snd (log_generation_attempt clock op succ dur err st))) \<le> 100"
  by (auto simp: log_generation_attempt_history split: sum.splits)

lemma log_generation_attempt_last:
  assumes "fst (log_generation_attempt clock op succ dur err st) = Inr ()"
  shows "generation_history (snd (log_generation_attempt clock op succ dur err st)) \<noteq> [] \<and>
         last (generation_history (snd (log_generation_attempt clock op succ dur err st))) =
           \<lparr> timestamp = clock (ticks st), operation = op,
              success = succ, duration = dur, error = err \<rparr>"
  using assms by (simp add: log_generation_attempt_history)

lemma log_attempts_length:
  "length (generation_history st) \<le> 100 \<Longrightarrow>
   length (generation_history (snd (log_attempts clock as st))) \<le> 100"
proof (induction as arbitrary: st)
  case Nil
  then show ?case by simp
next
  case (Cons a as)
  let ?r = "log_generation_attempt clock (attempt_operation a) (attempt_success a)
             (attempt_duration a) (attempt_error a) st"
  have "length (generation_history (snd ?r)) \<le> 100"
    using Cons.prems by (rule log_generation_attempt_length)
  with Cons.IH[of "snd ?r"] show ?case
    by (cases ?r) (simp split: sum.splits)
qed

lemma log_api_call_funpow_length:
  "length (api_calls ((log_api_call clock svc d stat e ^^ n) ms)) = length (api_calls ms) + n"
  by (induction n) (simp_all add: log_api_call_def)

text \<open>
  C7, as amended. The generation history of \<^verbatim>\<open>log_generation_attempt\<close> is
  bounded: a call that returns leaves the old history with the new entry appended, cut
  from the front (the oldest entries first) to its last hundred entries, the entries kept
  being unchanged; so its length is at most 100 after every append, and at most 100 in
  every state reached from the initial one. The API-call log of
  \<^verbatim>\<open>PerformanceMonitor.log_api_call\<close> has no cap: every call appends one entry and
  drops none.
\<close>

theorem event_log_bound_amended:
  "(fst (log_generation_attempt clock op succ dur err st) = Inr () \<longrightarrow>
      generation_history (snd (log_generation_attempt clock op succ dur err st)) =
        drop (length (generation_history st) + 1 - 100)
          (generation_history st @ [\<lparr> timestamp = clock (ticks st), operation = op,
                    success = succ, duration = dur, error = err \<rparr>])
    \<and> length (generation_history (snd (log_generation_attempt clock op succ dur err st))) \<le> 100)
   \<and> length (generation_history (snd (log_attempts clock as initialize_session_state))) \<le> 100
   \<and> api_calls (log_api_call clock svc d stat e ms) =
       api_calls ms @ [\<lparr> service = svc, call_duration = d, status = stat, call_error = e,
                         call_timestamp = clock (clock_ticks ms) \<rparr>]"
proof -
  have "length (generation_history initialize_session_state) \<le> 100"
    by (simp add: initialize_session_state_def)
  then have "length (generation_history (snd (log_attempts clock as initialize_session_state))) \<le> 100"
    by (rule log_attempts_length)
  moreover have "fst (log_generation_attempt clock op succ dur err st) = Inr () \<longrightarrow>
      length (generation_history (snd (log_generation_attempt clock op succ dur err st))) \<le> 100"
    by (auto simp: log_generation_attempt_history)
  ultimately show ?thesis
    by (simp add: log_generation_attempt_history log_api_call_def)
qed

theorem event_log_bound_amended_witness:
  "fst (log_generation_attempt (\<lambda>k. real k) ''Erase'' False (Some 1) (Some ''Network error: x'')
          initialize_session_state) = Inr ()
   \<and> generation_history (snd (log_generation_attempt (\<lambda>k. real k) ''Erase'' False (Some 1)
          (Some ''Network error: x'') initialize_session_state)) =
        [\<lparr> timestamp = 0, operation = ''Erase'', success = False, duration = Some 1,
            error = Some ''Network error: x'' \<rparr>]
   \<and> length (generation_history (snd (log_generation_attempt (\<lambda>k. real k) ''Erase'' False
          (Some 1) (Some ''Network error: x'') initialize_session_state))) \<le> 100"
proof -
  have r: "fst (log_generation_attempt (\<lambda>k. real k) ''Erase'' False (Some 1)
             (Some ''Network error: x'') initialize_session_state) = Inr ()"
    by (simp add: log_generation_attempt_fst update_metrics_failure_returns)
  with event_log_bound_amended [of "\<lambda>k. real k" "''Erase''" False "Some 1"
      "Some ''Network error: x''" initialize_session_state]
  show ?thesis
    by (simp add: initialize_session_state_def)
qed

theorem event_log_bound_counterexample:
  "\<not> (\<exists>cap. \<forall>n. length (api_calls
         ((log_api_call (\<lambda>k. 0) ''hd_image_generation'' 0 ''success'' None ^^ n)
            PerformanceMonitor_init)) \<le> cap)"
proof
  assume "\<exists>cap. \<forall>n. length (api_calls
         ((log_api_call (\<lambda>k. 0) ''hd_image_generation'' 0 ''success'' None ^^ n)
            PerformanceMonitor_init)) \<le> cap"
  then obtain cap where "\<forall>n. length (api_calls
         ((log_api_call (\<lambda>k. 0) ''hd_image_generation'' 0 ''success'' None ^^ n)
            PerformanceMonitor_init)) \<le> cap" ..
  then have "length (api_calls
         ((log_api_call (\<lambda>k. 0) ''hd_image_generation'' 0 ''success'' None ^^ (Suc cap))
            PerformanceMonitor_init)) \<le> cap" ..
  moreover have "length (api_calls
         ((log_api_call (\<lambda>k. 0) ''hd_image_generation'' 0 ''success'' None ^^ (Suc cap))
            PerformanceMonitor_init)) = length (api_calls PerformanceMonitor_init) + Suc cap"
    by (rule log_api_call_funpow_length)
  ultimately show False
    by linarith
qed

section \<open>The call orchestrators\<close>

text \<open>
  C2. Every call of \<^verbatim>\<open>make_api_call\<close> appends exactly one entry to
  \<^verbatim>\<open>api_calls\<close>, on the path where the wrapped function returns and on the path
  where it raises. The entry holds the service name, the outcome
  (\<^verbatim>\<open>"success"\<close> or \<^verbatim>\<open>"error"\<close>), the elapsed time between the reading of the
  clock at entry and the reading after the call, and the text of the exception when there
  is one.
\<close>

theorem one_log_entry_per_call:
  "api_calls (snd (make_api_call clock memory service_name api_result st)) =
     api_calls st @
       [\<lparr> service = service_name,
          call_duration = clock (clock_ticks st + 4) - clock (clock_ticks st),
          status = (case api_result of Inl e \<Rightarrow> ''error'' | Inr v \<Rightarrow> ''success''),
          call_error = (case api_result of Inl e \<Rightarrow> Some (message e) | Inr v \<Rightarrow> None),
          call_timestamp = clock (clock_ticks st + 5) \<rparr>]"
  by (simp add: make_api_call_def monitor_enter_def monitor_exit_def log_api_call_def Let_def
           eval_nat_numeral split: sum.splits)

theorem one_log_entry_per_call_witness:
  "api_calls (snd (make_api_call (\<lambda>k. real k) (\<lambda>k. 0) ''hd_image_generation''
       (Inl (Exception ValueError ''Prompt cannot be empty'') :: unit option outcome)
       PerformanceMonitor_init)) =
     [\<lparr> service = ''hd_image_generation'', call_duration = 4, status = ''error'',
        call_error = Some ''Prompt cannot be empty'', call_timestamp = 5 \<rparr>]"
  using one_log_entry_per_call [of "\<lambda>k. real k" "\<lambda>k. 0" "''hd_image_generation''"
      "Inl (Exception ValueError ''Prompt cannot be empty'') :: unit option outcome"
      PerformanceMonitor_init]
  by (simp add: PerformanceMonitor_init_def)

lemma handle_exception_returns:
  "fst (handle_exception clock start_time name e st) = Inr None"
  by (simp add: handle_exception_def Let_def split: prod.splits sum.splits)
     (metis fst_conv log_generation_attempt_fst update_metrics_failure_returns sum.distinct(1))

lemma handle_exception_history:
  "generation_history (snd (handle_exception clock start_time name e st)) =
     generation_history (snd (log_generation_attempt clock name False
        (Some (clock (ticks st) - start_time))
        (Some (error_prefix (exn_class e) @ '': '' @ message e)) (st\<lparr>ticks := ticks st + 1\<rparr>)))"
  by (simp add: handle_exception_def Let_def split: prod.splits sum.splits)

lemma handle_exception_logged:
  "generation_history (snd (handle_exception clock start_time name e st)) \<noteq> [] \<and>
   error (last (generation_history (snd (handle_exception clock start_time name e st)))) =
     Some (error_prefix (exn_class e) @ '': '' @ message e)"
proof -
  have "fst (log_generation_attempt clock name False (Some (clock (ticks st) - start_time))
        (Some (error_prefix (exn_class e) @ '': '' @ message e)) (st\<lparr>ticks := ticks st + 1\<rparr>)) = Inr ()"
    by (simp add: log_generation_attempt_fst update_metrics_failure_returns)
  from log_generation_attempt_last[OF this] show ?thesis
    by (simp add: handle_exception_history)
qed

lemma safe_api_call_raise: "fst (safe_api_call clock (Inl e) name st) = Inr None"
  by (simp add: safe_api_call_def Let_def handle_exception_returns)

lemma safe_api_call_return:
  "fst (safe_api_call clock (Inr v) name st) =
     (case fst (log_generation_attempt clock name True
                  (Some (clock (ticks st + 1) - clock (ticks st))) None (st\<lparr>ticks := ticks st + 2\<rparr>)) of
        Inl e \<Rightarrow> Inr None | Inr u \<Rightarrow> Inr v)"
proof -
  obtain r st3 where r: "log_generation_attempt clock name True
      (Some (clock (ticks st + 1) - clock (ticks st))) None (st\<lparr>ticks := ticks st + 2\<rparr>) = (r, st3)"
    by (cases "log_generation_attempt clock name True
      (Some (clock (ticks st + 1) - clock (ticks st))) None (st\<lparr>ticks := ticks st + 2\<rparr>)")
  then show ?thesis
    by (cases r) (simp_all add: safe_api_call_def Let_def handle_exception_returns)
qed

lemma safe_api_call_return_value:
  "0 \<le> successful_generations (performance_metrics st) \<Longrightarrow>
   fst (safe_api_call clock (Inr v) name st) = Inr v"
  by (simp add: safe_api_call_return log_generation_attempt_fst update_metrics_returns)

lemma safe_api_call_raise_logged:
  "generation_history (snd (safe_api_call clock (Inl e) name st)) \<noteq> [] \<and>
   error (last (generation_history (snd (safe_api_call clock (Inl e) name st)))) =
     Some (error_prefix (exn_class e) @ '': '' @ message e)"
  by (simp add: safe_api_call_def Let_def handle_exception_logged)

lemma error_prefix_message_nonempty: "error_prefix c @ '': '' @ m \<noteq> []"
  by (simp add: error_prefix_def)

text \<open>
  C1, as amended. Neither orchestrator lets an exception of the wrapped function reach
  its caller. \<^verbatim>\<open>make_api_call\<close> returns the pair \<^verbatim>\<open>(v, None)\<close> when the wrapped
  function returns \<^verbatim>\<open>v\<close>, and the pair \<^verbatim>\<open>(None, str(e))\<close> when it raises
  \<^verbatim>\<open>e\<close>: the message is the text of the exception, empty when the exception has
  none; the two components are never both populated. \<^verbatim>\<open>safe_api_call\<close> returns no
  pair: it returns the value \<^verbatim>\<open>v\<close> (while the counter of successes is not
  negative), and \<^verbatim>\<open>None\<close> when the wrapped function raises, after logging a
  non-empty message that starts with the category of the error.
\<close>

theorem orchestrator_never_raises_amended:
  "fst (make_api_call clock memory service_name api_result ms) =
     (case api_result of
        Inl e \<Rightarrow> Inr (None, Some (message e))
      | Inr v \<Rightarrow> Inr (v, None))
   \<and> (\<exists>a b. fst (make_api_call clock memory service_name api_result ms) = Inr (a, b) \<and>
             (a = None \<or> b = None))
   \<and> (\<exists>r. fst (safe_api_call clock api_result operation_name st) = Inr r \<and>
          (case api_result of
             Inl e \<Rightarrow> r = None
           | Inr v \<Rightarrow> r = v \<or> r = None))
   \<and> (0 \<le> successful_generations (performance_metrics st) \<longrightarrow>
        fst (safe_api_call clock api_result operation_name st) =
          (case api_result of Inl e \<Rightarrow> Inr None | Inr v \<Rightarrow> Inr v))
   \<and> (case api_result of
         Inl e \<Rightarrow>
           generation_history (snd (safe_api_call clock api_result operation_name st)) \<noteq> [] \<and>
           (\<exists>m. error (last (generation_history
                   (snd (safe_api_call clock api_result operation_name st)))) = Some m \<and>
                m = error_prefix (exn_class e) @ '': '' @ message e \<and> m \<noteq> [])
       | Inr v \<Rightarrow> True)"
proof -
  have 1: "fst (make_api_call clock memory service_name api_result ms) =
     (case api_result of
        Inl e \<Rightarrow> Inr (None, Some (message e))
      | Inr v \<Rightarrow> Inr (v, None))"
    by (simp add: make_api_call_def Let_def split: sum.splits prod.splits)
  then have 2: "\<exists>a b. fst (make_api_call clock memory service_name api_result ms) = Inr (a, b) \<and>
             (a = None \<or> b = None)"
    by (cases api_result) simp_all
  have 3: "\<exists>r. fst (safe_api_call clock api_result operation_name st) = Inr r \<and>
          (case api_result of
             Inl e \<Rightarrow> r = None
           | Inr v \<Rightarrow> r = v \<or> r = None)"
    by (cases api_result) (simp_all add: safe_api_call_raise safe_api_call_return split: sum.splits)
  have 4: "0 \<le> successful_generations (performance_metrics st) \<longrightarrow>
        fst (safe_api_call clock api_result operation_name st) =
          (case api_result of Inl e \<Rightarrow> Inr None | Inr v \<Rightarrow> Inr v)"
    by (cases api_result) (simp_all add: safe_api_call_raise safe_api_call_return_value)
  have 5: "(case api_result of
         Inl e \<Rightarrow>
           generation_history (snd (safe_api_call clock api_result operation_name st)) \<noteq> [] \<and>
           (\<exists>m. error (last (generation_history
                   (snd (safe_api_call clock api_result operation_name st)))) = Some m \<and>
                m = error_prefix (exn_class e) @ '': '' @ message e \<and> m \<noteq> [])
       | Inr v \<Rightarrow> True)"
  proof (cases api_result)
    case (Inl e)
    then show ?thesis
      by (simp add: safe_api_call_raise_logged error_prefix_message_nonempty)
  next
    case (Inr v)
    then show ?thesis by simp
  qed
  from 1 2 3 4 5 show ?thesis by blast
qed

theorem orchestrator_never_raises_amended_witness:
  "0 \<le> successful_generations (performance_metrics initialize_session_state)
   \<and> fst (make_api_call (\<lambda>k. real k) (\<lambda>k. 0) ''hd_image_generation''
            (Inr (Some (7::nat))) PerformanceMonitor_init) = Inr (Some 7, None)
   \<and> fst (safe_api_call (\<lambda>k. real k) (Inr (Some (7::nat))) ''HD Image Generation''
            initialize_session_state) = Inr (Some 7)"
  using orchestrator_never_raises_amended [of "\<lambda>k. real k" "\<lambda>k. 0" "''hd_image_generation''"
      "Inr (Some (7::nat))" PerformanceMonitor_init "''HD Image Generation''"
      initialize_session_state]
  by (simp add: initialize_session_state_def)

theorem orchestrator_message_counterexample:
  "fst (make_api_call (\<lambda>k. 0) (\<lambda>k. 0) ''hd_image_generation''
          (Inl (Exception ValueError [])) PerformanceMonitor_init)
     = Inr (None :: unit option, Some [])"
  by (simp add: make_api_call_def Let_def split: prod.splits)

section \<open>Validation of an uploaded file\<close>

lemma valid_types_set: "set valid_types = {''image/jpeg'', ''image/png'', ''image/webp''}"
  by (auto simp: valid_types_def)

text \<open>
  C8. For an uploaded file (an object with a size and a MIME type), both validators
  fail when the size exceeds 10 MiB or the type is not one of \<^verbatim>\<open>image/jpeg\<close>,
  \<^verbatim>\<open>image/png\<close>, \<^verbatim>\<open>image/webp\<close>: \<^verbatim>\<open>validate_image_file\<close> raises
  \<^verbatim>\<open>ValueError\<close>, \<^verbatim>\<open>validate_image\<close> returns \<^verbatim>\<open>False\<close> with a message.
  A file within the cap and of an allowed type passes both.
\<close>

theorem upload_validation:
  assumes "file_size f = Some n" and "file_type f = Some t"
  shows "(n > 10 * 1024 * 1024 \<or> t \<notin> {''image/jpeg'', ''image/png'', ''image/webp''} \<longrightarrow>
            (\<exists>m. validate_image_file (Some f) = Inl (Exception ValueError m)) \<and>
            (\<exists>m. validate_image (Some f) = Inr (False, m)))
       \<and> (n \<le> 10 * 1024 * 1024 \<and> t \<in> {''image/jpeg'', ''image/png'', ''image/webp''} \<longrightarrow>
            validate_image_file (Some f) = Inr True \<and>
            validate_image (Some f) = Inr (True, ''Valid image''))"
  using assms
  by (simp add: validate_image_file_def validate_image_def valid_types_set del: set_simps)

theorem upload_validation_witness:
  "validate_image_file (Some \<lparr>file_size = Some 2048, file_type = Some ''image/png''\<rparr>) = Inr True
   \<and> validate_image (Some \<lparr>file_size = Some 2048, file_type = Some ''image/png''\<rparr>)
        = Inr (True, ''Valid image'')
   \<and> (\<exists>m. validate_image_file (Some \<lparr>file_size = Some 10485761, file_type = Some ''image/png''\<rparr>)
          = Inl (Exception ValueError m))
   \<and> (\<exists>m. validate_image (Some \<lparr>file_size = Some 2048, file_type = Some ''image/gif''\<rparr>)
          = Inr (False, m))"
  using upload_validation [of "\<lparr>file_size = Some 2048, file_type = Some ''image/png''\<rparr>"
          2048 "''image/png''"]
        upload_validation [of "\<lparr>file_size = Some 10485761, file_type = Some ''image/png''\<rparr>"
          10485761 "''image/png''"]
        upload_validation [of "\<lparr>file_size = Some 2048, file_type = Some ''image/gif''\<rparr>"
          2048 "''image/gif''"]
  by simp

section \<open>The transport client\<close>

lemma send_supported:
  assumes "upper method = ''POST'' \<or> upper method = ''GET''"
  shows "\<exists>rq. send http self endpoint method data files timeout = (http rq, [rq])"
  using assms by (auto simp: send_def Let_def)

lemma make_request_sent:
  "send http self endpoint method data files timeout = (r, sent) \<Longrightarrow>
   make_request http self endpoint method data files timeout =
     (case (case r of Inl e \<Rightarrow> Inl e | Inr response \<Rightarrow> handle_response response) of
        Inl e \<Rightarrow> Inl (reraise endpoint timeout e)
      | Inr j \<Rightarrow> Inr j, sent)"
  by (simp add: make_request_def)

lemma reraise_api_error:
  "reraise endpoint timeout (Exception RequestException m) =
     Exception RequestException (''Unexpected error for '' @ endpoint @ '': '' @ m)"
  by (simp add: reraise_def)


lemma make_request_connection_error:
  assumes "upper method = ''POST'' \<or> upper method = ''GET''"
    and "\<And>rq. http rq = Inl (Exception ConnectionError m)"
  shows "fst (make_request http self endpoint method data files timeout) =
           Inl (Exception RequestException (''Connection error for '' @ endpoint))"
proof -
  from send_supported[OF assms(1)] obtain rq where
    s: "send http self endpoint method data files timeout = (http rq, [rq])" by blast
  show ?thesis
    by (simp add: make_request_sent[OF s] assms(2) reraise_def)
qed

text \<open>
  C4. A call of \<^verbatim>\<open>make_request\<close> with a supported method (\<^verbatim>\<open>POST\<close> or
  \<^verbatim>\<open>GET\<close>, in any case of letters) sends exactly one request. When the response has
  status 200, the call returns the parsed JSON body. When the response has any other
  status, the call raises \<^verbatim>\<open>RequestException\<close> with a message that holds the status
  code and the text of the body.
\<close>

theorem make_request_one_attempt:
  assumes "upper method = ''POST'' \<or> upper method = ''GET''"
  shows "\<exists>rq. snd (make_request http self endpoint method data files timeout) = [rq] \<and>
          (\<forall>r. http rq = Inr r \<longrightarrow>
             (status_code r = 200 \<longrightarrow>
                (\<forall>j. response_json r = Inr j \<longrightarrow>
                   fst (make_request http self endpoint method data files timeout) = Inr j)) \<and>
             (status_code r \<noteq> 200 \<longrightarrow>
                fst (make_request http self endpoint method data files timeout) =
                  Inl (Exception RequestException
                        (''Unexpected error for '' @ endpoint @ '': '' @ ''API Error: '' @
                         str_int (status_code r) @ '' - '' @ response_text r))))"
proof -
  from send_supported[OF assms] obtain rq where
    s: "send http self endpoint method data files timeout = (http rq, [rq])" by blast
  show ?thesis
  proof (intro exI[of _ rq] conjI allI impI)
    show "snd (make_request http self endpoint method data files timeout) = [rq]"
      by (simp add: make_request_sent[OF s])
  next
    fix r j
    assume "http rq = Inr r" "status_code r = 200" "response_json r = Inr j"
    then show "fst (make_request http self endpoint method data files timeout) = Inr j"
      by (simp add: make_request_sent[OF s] handle_response_def)
  next
    fix r
    assume "http rq = Inr r" "status_code r \<noteq> 200"
    then show "fst (make_request http self endpoint method data files timeout) =
                  Inl (Exception RequestException
                        (''Unexpected error for '' @ endpoint @ '': '' @ ''API Error: '' @
                         str_int (status_code r) @ '' - '' @ response_text r))"
      by (simp add: make_request_sent[OF s] handle_response_def reraise_api_error)
  qed
qed

lemma str_int_404: "str_int 404 = ''404''"
  by code_simp

theorem make_request_one_attempt_witness:
  "upper ''post'' = ''POST''
   \<and> length (snd (make_request
        (\<lambda>rq. Inr \<lparr>status_code = 404, response_text = ''Not Found'',
                    response_json = Inr JNull\<rparr>)
        \<lparr>api_key = ''k'', base_url = ''https://engine.prod.bria-api.com''\<rparr>
        ''v1/text-to-image'' ''post'' None None 60)) = 1
   \<and> fst (make_request
        (\<lambda>rq. Inr \<lparr>status_code = 404, response_text = ''Not Found'',
                    response_json = Inr JNull\<rparr>)
        \<lparr>api_key = ''k'', base_url = ''https://engine.prod.bria-api.com''\<rparr>
        ''v1/text-to-image'' ''post'' None None 60) =
       Inl (Exception RequestException
             ''Unexpected error for v1/text-to-image: API Error: 404 - Not Found'')"
proof -
  have u: "upper ''post'' = ''POST''"
    by code_simp
  then have "upper ''post'' = ''POST'' \<or> upper ''post'' = ''GET''" ..
  from make_request_one_attempt [OF this,
      of "\<lambda>rq. Inr \<lparr>status_code = 404, response_text = ''Not Found'', response_json = Inr JNull\<rparr>"
         "\<lparr>api_key = ''k'', base_url = ''https://engine.prod.bria-api.com''\<rparr>"
         "''v1/text-to-image''" None None 60]
  show ?thesis
    using u by (auto simp: str_int_404)
qed

section \<open>Validation before the request\<close>






section \<open>The response normaliser\<close>

lemma then_do_simps [simp]:
  "then_do (Inl e) f = Inl e"
  "then_do (Inr v) f = f v"
  by (simp_all add: then_do_def)

lemma key_in_dict: "(key \<in> fst ` set kvs) = (map_of kvs key \<noteq> None)"
  by (simp add: map_of_eq_None_iff)

lemma process_response_no_result:
  "map_of d ''result'' = None \<Longrightarrow>
   process_response identify (JDict d) =
     Inl (Exception ValueError ''Invalid response format from API'')"
  by (simp add: process_response_def key_in_dict)

lemma process_response_no_images:
  "map_of d ''result'' = Some (JDict r) \<Longrightarrow> map_of r ''images'' = None \<Longrightarrow>
   process_response identify (JDict d) =
     Inl (Exception ValueError ''Invalid response format from API'')"
  by (simp add: process_response_def key_in_dict)

lemma process_response_first_image:
  "map_of d ''result'' = Some (JDict r) \<Longrightarrow> map_of r ''images'' = Some (JList (x # rest)) \<Longrightarrow>
   process_response identify (JDict d) = decode_image identify x"
  by (simp add: process_response_def key_in_dict)

lemma decode_image_not_string:
  "\<forall>s. x \<noteq> JStr s \<Longrightarrow>
   decode_image identify x = Inl (Exception ValueError ''Unexpected image format in response'')"
  by (cases x) (simp_all add: decode_image_def)

lemma decode_image_string:
  "decode_image identify (JStr s) = then_do (b64decode s) (Image_open identify)"
  by (simp add: decode_image_def)

text \<open>
  C3, as amended. The normaliser of \<^verbatim>\<open>generate_hd_image\<close> reads one place of the
  response, \<^verbatim>\<open>response_data['result']['images'][0]\<close>. When the response object has
  no \<^verbatim>\<open>result\<close>, or its \<^verbatim>\<open>result\<close> object has no \<^verbatim>\<open>images\<close>, it raises
  \<^verbatim>\<open>ValueError("Invalid response format from API")\<close>, whatever else the response
  carries. When the first image is a string, it decodes the string as base64 and opens
  the bytes as an image: if the string decodes to bytes that are an image, the result is
  the image of these bytes. When the first image is no string, it raises
  \<^verbatim>\<open>ValueError("Unexpected image format in response")\<close>.
\<close>

theorem response_normalizer_amended:
  "(map_of d ''result'' = None \<longrightarrow>
      process_response identify (JDict d) =
        Inl (Exception ValueError ''Invalid response format from API''))
   \<and> (map_of d ''result'' = Some (JDict r) \<and> map_of r ''images'' = None \<longrightarrow>
      process_response identify (JDict d) =
        Inl (Exception ValueError ''Invalid response format from API''))
   \<and> (map_of d ''result'' = Some (JDict r) \<and> map_of r ''images'' = Some (JList (JStr s # rest)) \<longrightarrow>
      process_response identify (JDict d) = then_do (b64decode s) (Image_open identify) \<and>
      (\<forall>bs. b64decode s = Inr bs \<and> identify bs \<longrightarrow>
         process_response identify (JDict d) = Inr (Image bs)))
   \<and> (map_of d ''result'' = Some (JDict r) \<and> map_of r ''images'' = Some (JList (x # rest))
        \<and> (\<forall>s. x \<noteq> JStr s) \<longrightarrow>
      process_response identify (JDict d) =
        Inl (Exception ValueError ''Unexpected image format in response''))"
  by (simp add: process_response_no_result process_response_no_images
        process_response_first_image decode_image_not_string decode_image_string
        Image_open_def)

lemma b64decode_QUJD: "b64decode ''QUJD'' = Inr [0x41, 0x42, 0x43]"
  by code_simp

theorem response_normalizer_amended_witness:
  "process_response (\<lambda>bs. True)
      (JDict [(''result'', JDict [(''images'', JList [JStr ''QUJD''])])]) =
     Inr (Image [0x41, 0x42, 0x43])
   \<and> process_response (\<lambda>bs. True) (JDict [(''result'', JDict [(''images'', JList [JInt 5])])]) =
       Inl (Exception ValueError ''Unexpected image format in response'')
   \<and> process_response (\<lambda>bs. True) (JDict [(''result'', JDict [])]) =
       Inl (Exception ValueError ''Invalid response format from API'')
   \<and> process_response (\<lambda>bs. True) (JDict []) =
       Inl (Exception ValueError ''Invalid response format from API'')"
  using response_normalizer_amended [of "[(''result'', JDict [(''images'', JList [JStr ''QUJD''])])]"
          "\<lambda>bs. True" "[(''images'', JList [JStr ''QUJD''])]" "''QUJD''" "[]" "JStr ''QUJD''"]
        response_normalizer_amended [of "[(''result'', JDict [(''images'', JList [JInt 5])])]"
          "\<lambda>bs. True" "[(''images'', JList [JInt 5])]" "[]" "[]" "JInt 5"]
        response_normalizer_amended [of "[(''result'', JDict [])]"
          "\<lambda>bs. True" "[]" "[]" "[]" "JNull"]
        response_normalizer_amended [of "[]" "\<lambda>bs. True" "[]" "[]" "[]" "JNull"]
  by (simp add: b64decode_QUJD Image_open_def)

theorem response_normalizer_counterexample:
  "process_response (\<lambda>bs. True)
      (JDict [(''result_url'', JStr ''https://cdn.example.com/image.png'')]) =
     Inl (Exception ValueError ''Invalid response format from API'')"
  by (simp add: process_response_def)

section \<open>Base64 round trip\<close>

lemma and_3: "(a::byte) AND 0x03 = take_bit 2 a"
  by (simp add: take_bit_eq_mask mask_eq_exp_minus_1)
lemma and_15: "(a::byte) AND 0x0f = take_bit 4 a"
  by (simp add: take_bit_eq_mask mask_eq_exp_minus_1)
lemma and_63: "(a::byte) AND 0x3f = take_bit 6 a"
  by (simp add: take_bit_eq_mask mask_eq_exp_minus_1)

lemma byte_eqI:
  fixes a b :: byte
  assumes "bit a 0 = bit b 0" "bit a 1 = bit b 1" "bit a 2 = bit b 2" "bit a 3 = bit b 3"
    "bit a 4 = bit b 4" "bit a 5 = bit b 5" "bit a 6 = bit b 6" "bit a 7 = bit b 7"
  shows "a = b"
proof (rule bit_word_eqI)
  fix n assume "n < LENGTH(8)"
  then have "n = 0 \<or> n = 1 \<or> n = 2 \<or> n = 3 \<or> n = 4 \<or> n = 5 \<or> n = 6 \<or> n = 7"
    by auto
  with assms show "bit a n = bit b n" by auto
qed

lemma byte_high_bits [simp]:
  "\<not> bit (w::byte) 8" "\<not> bit (w::byte) 9" "\<not> bit (w::byte) 10" "\<not> bit (w::byte) 11"
  "\<not> bit (w::byte) 12" "\<not> bit (w::byte) 13"
  by (auto dest: bit_imp_le_length)

lemma first_byte_restored: "push_bit 2 (drop_bit 2 (a::byte)) OR drop_bit 4 (push_bit 4 (take_bit 2 a) OR drop_bit 4 (b::byte)) = a"
  by (rule byte_eqI) (simp_all add: bit_simps)

lemma second_leftchar: "take_bit 4 (push_bit 4 (take_bit 2 (a::byte)) OR drop_bit 4 (b::byte)) = drop_bit 4 b"
  by (rule byte_eqI) (simp_all add: bit_simps)

lemma second_byte_restored: "push_bit 4 (drop_bit 4 (b::byte)) OR drop_bit 2 (push_bit 2 (take_bit 4 b) OR drop_bit 6 (c::byte)) = b"
  by (rule byte_eqI) (simp_all add: bit_simps)

lemma third_leftchar: "take_bit 2 (push_bit 2 (take_bit 4 (b::byte)) OR drop_bit 6 (c::byte)) = drop_bit 6 c"
  by (rule byte_eqI) (simp_all add: bit_simps)

lemma third_byte_restored: "push_bit 6 (drop_bit 6 (c::byte)) OR take_bit 6 c = c"
  by (rule byte_eqI) (simp_all add: bit_simps)

lemma first_byte_restored_tail: "push_bit 2 (drop_bit 2 (a::byte)) OR drop_bit 4 (push_bit 4 (take_bit 2 a)) = a"
  by (rule byte_eqI) (simp_all add: bit_simps)
lemma second_byte_restored_tail: "push_bit 4 (take_bit 4 (push_bit 4 (take_bit 2 (a::byte)) OR drop_bit 4 (b::byte))) OR drop_bit 2 (push_bit 2 (take_bit 4 b)) = b"
  by (rule byte_eqI) (simp_all add: bit_simps)

lemma sextet_range: "take_bit 6 (v::byte) = v \<Longrightarrow> unat v < 64"
proof -
  assume "take_bit 6 v = v"
  then have "unat v = take_bit 6 (unat v)"
    by (metis unsigned_take_bit_eq)
  also have "\<dots> < 2 ^ 6" by (rule take_bit_nat_less_exp)
  finally show ?thesis by simp
qed

lemma first_sextet_range: "unat (drop_bit 2 (a::byte)) < 64"
  by (rule sextet_range, rule byte_eqI) (simp_all add: bit_simps)
lemma second_sextet_range: "unat (push_bit 4 (take_bit 2 (a::byte)) OR drop_bit 4 (b::byte)) < 64"
  by (rule sextet_range, rule byte_eqI) (simp_all add: bit_simps)
lemma second_sextet_range_tail: "unat (push_bit 4 (take_bit 2 (a::byte))) < 64"
  by (rule sextet_range, rule byte_eqI) (simp_all add: bit_simps)
lemma third_sextet_range: "unat (push_bit 2 (take_bit 4 (b::byte)) OR drop_bit 6 (c::byte)) < 64"
  by (rule sextet_range, rule byte_eqI) (simp_all add: bit_simps)
lemma third_sextet_range_tail: "unat (push_bit 2 (take_bit 4 (b::byte))) < 64"
  by (rule sextet_range, rule byte_eqI) (simp_all add: bit_simps)
lemma fourth_sextet_range: "unat (take_bit 6 (c::byte)) < 64"
  by (rule sextet_range, rule byte_eqI) (simp_all add: bit_simps)


lemma index_of_nth:
  "distinct xs \<Longrightarrow> n < length xs \<Longrightarrow> index_of (xs ! n) xs = Some n"
proof (induction xs arbitrary: n)
  case Nil
  then show ?case by simp
next
  case (Cons x xs)
  show ?case
  proof (cases n)
    case 0
    then show ?thesis by simp
  next
    case (Suc m)
    with Cons.prems have "xs ! m \<in> set xs" by simp
    with Cons.prems have "xs ! m \<noteq> x" by auto
    with Suc Cons show ?thesis by simp
  qed
qed

lemma b64_alphabet_length: "length b64_alphabet = 64"
  by (simp add: b64_alphabet_def)

lemma b64_alphabet_distinct: "distinct b64_alphabet"
  by (simp add: b64_alphabet_def)

lemma b64_alphabet_ascii: "\<forall>c\<in>set b64_alphabet. c \<noteq> CHR ''='' \<and> (of_char c :: nat) < 128"
  by (simp add: b64_alphabet_def)

lemma b64_char_props:
  assumes "unat v < 64"
  shows "b64_value (b64_char v) = Some v"
    and "b64_char v \<noteq> CHR ''=''"
    and "(of_char (b64_char v) :: nat) < 128"
proof -
  from assms have n: "unat v < length b64_alphabet"
    by (simp add: b64_alphabet_length)
  then have "index_of (b64_alphabet ! unat v) b64_alphabet = Some (unat v)"
    by (rule index_of_nth[OF b64_alphabet_distinct])
  then show "b64_value (b64_char v) = Some v"
    by (simp add: b64_value_def b64_char_def)
  from n have "b64_char v \<in> set b64_alphabet"
    by (simp add: b64_char_def)
  with b64_alphabet_ascii show "b64_char v \<noteq> CHR ''=''" "(of_char (b64_char v) :: nat) < 128"
    by blast+
qed

lemma a2b_loop_value:
  assumes "unat v < 64"
  shows "a2b_loop (b64_char v # cs) quad_pos leftchar pads bin_data =
     (if quad_pos = 0 then a2b_loop cs 1 v 0 bin_data
      else if quad_pos = 1
      then a2b_loop cs 2 (v AND 0x0f) 0 (bin_data @ [push_bit 2 leftchar OR drop_bit 4 v])
      else if quad_pos = 2
      then a2b_loop cs 3 (v AND 0x03) 0 (bin_data @ [push_bit 4 leftchar OR drop_bit 2 v])
      else a2b_loop cs 0 0 0 (bin_data @ [push_bit 6 leftchar OR v]))"
  using b64_char_props(1,2)[OF assms] by simp

lemma a2b_loop_pad:
  "a2b_loop (CHR ''='' # cs) quad_pos leftchar pads bin_data =
     (if quad_pos \<ge> 2
      then if quad_pos + (pads + 1) \<ge> 4 then Inr bin_data
           else a2b_loop cs quad_pos leftchar (pads + 1) bin_data
      else a2b_loop cs quad_pos leftchar pads bin_data)"
  by simp

lemma a2b_loop_b64encode:
  "a2b_loop (b64encode bs) 0 leftchar pads bin_data = Inr (bin_data @ bs)"
proof (induction bs arbitrary: leftchar pads bin_data rule: b64encode.induct)
  case 1
  then show ?case by simp
next
  case (2 a)
  have "a2b_loop (b64encode [a]) 0 leftchar pads bin_data =
          Inr (bin_data @ [push_bit 2 (drop_bit 2 a) OR drop_bit 4 (push_bit 4 (take_bit 2 a))])"
    by (simp add: and_3 and_15 and_63 a2b_loop_value a2b_loop_pad first_sextet_range second_sextet_range_tail
             del: a2b_loop.simps(2) drop_bit_or push_bit_or take_bit_or)
  then show ?case
    by (simp only: first_byte_restored_tail)
next
  case (3 a b)
  have "a2b_loop (b64encode [a, b]) 0 leftchar pads bin_data =
          Inr (bin_data @
            [push_bit 2 (drop_bit 2 a) OR
               drop_bit 4 (push_bit 4 (take_bit 2 a) OR drop_bit 4 b),
             push_bit 4 (take_bit 4 (push_bit 4 (take_bit 2 a) OR drop_bit 4 b)) OR
               drop_bit 2 (push_bit 2 (take_bit 4 b))])"
    by (simp add: and_3 and_15 and_63 a2b_loop_value a2b_loop_pad first_sextet_range second_sextet_range third_sextet_range_tail
             del: a2b_loop.simps(2))
  then show ?case
    by (simp only: first_byte_restored second_byte_restored_tail)
next
  case (4 a b c bs)
  have "a2b_loop (b64encode (a # b # c # bs)) 0 leftchar pads bin_data =
          a2b_loop (b64encode bs) 0 0 0
            (bin_data @
              [push_bit 2 (drop_bit 2 a) OR
                 drop_bit 4 (push_bit 4 (take_bit 2 a) OR drop_bit 4 b),
               push_bit 4 (take_bit 4 (push_bit 4 (take_bit 2 a) OR drop_bit 4 b)) OR
                 drop_bit 2 (push_bit 2 (take_bit 4 b) OR drop_bit 6 c),
               push_bit 6 (take_bit 2 (push_bit 2 (take_bit 4 b) OR drop_bit 6 c)) OR
                 take_bit 6 c])"
    by (simp add: and_3 and_15 and_63 a2b_loop_value first_sextet_range second_sextet_range third_sextet_range fourth_sextet_range
             del: a2b_loop.simps(2))
  also have "\<dots> = a2b_loop (b64encode bs) 0 0 0 (bin_data @ [a, b, c])"
    by (simp only: first_byte_restored second_leftchar second_byte_restored third_leftchar third_byte_restored)
  also have "\<dots> = Inr ((bin_data @ [a, b, c]) @ bs)"
    by (rule 4)
  finally show ?case by simp
qed

lemma b64encode_ascii: "list_all (\<lambda>c. (of_char c :: nat) < 128) (b64encode bs)"
  by (induction bs rule: b64encode.induct)
     (simp_all add: and_3 and_15 and_63 b64_char_props(3) first_sextet_range second_sextet_range second_sextet_range_tail third_sextet_range third_sextet_range_tail fourth_sextet_range)

lemma b64decode_b64encode: "b64decode (b64encode bs) = Inr bs"
  by (simp add: b64decode_def a2b_base64_def b64encode_ascii a2b_loop_b64encode)

text \<open>
  C9. Encoding a byte sequence in base64 and passing the string through the string
  branch of the normaliser gives back the same bytes: the decoder returns them, and
  when they are an image, the branch returns the image opened from exactly these bytes.
\<close>

theorem base64_round_trip:
  "b64decode (b64encode b) = Inr b
   \<and> (identify b \<longrightarrow>
        decode_image identify (JStr (b64encode b)) = Inr (Image b) \<and>
        process_response identify
          (JDict [(''result'', JDict [(''images'', JList [JStr (b64encode b)])])]) =
          Inr (Image b))"
  by (simp add: b64decode_b64encode decode_image_string Image_open_def
        process_response_first_image [where r = "[(''images'', JList [JStr (b64encode b)])]"])

theorem base64_round_trip_witness:
  "b64decode (b64encode [0x89, 0x50, 0x4E, 0x47, 0x0D]) = Inr [0x89, 0x50, 0x4E, 0x47, 0x0D]
   \<and> decode_image (\<lambda>bs. True) (JStr (b64encode [0x89, 0x50, 0x4E, 0x47, 0x0D])) =
       Inr (Image [0x89, 0x50, 0x4E, 0x47, 0x0D])"
  using base64_round_trip [of "[0x89, 0x50, 0x4E, 0x47, 0x0D]" "\<lambda>bs. True"]
  by simp

section \<open>A timeout of the transport, seen through the orchestrator\<close>




end
